theory Spec2Isabelle
  imports Main "HOL-Library.AList"
begin

section \<open>Values, errors and outcomes\<close>

text \<open>
  The consumer of \<^verbatim>\<open>reactor/channels.py\<close> handles JSON messages. A decoded JSON value is
  one of Python's \<^verbatim>\<open>None\<close>, \<^verbatim>\<open>bool\<close>, number, \<^verbatim>\<open>str\<close>, \<^verbatim>\<open>list\<close> or \<^verbatim>\<open>dict\<close>; numbers are
  kept as integers (no claim below computes with them). A \<^verbatim>\<open>dict\<close> is an association list
  in insertion order, read with \<open>map_of\<close> and written with \<open>AList.update\<close>, which
  replaces the value of a key in place or appends a new key, as a Python dict does.
\<close>

datatype json =
    JNull
  | JBool bool
  | JNum int
  | JStr string
  | JArr "json list"
  | JObj "(string \<times> json) list"

type_synonym pdict = "(string \<times> json) list"

text \<open>
  The exceptions that the modelled code can raise. \<open>IntegrityError\<close> is the failure of
  \<^verbatim>\<open>Signer.unsign\<close> on a state envelope (the specification's name for a signature that
  does not validate); \<open>DecodeError\<close> is the failure of \<^verbatim>\<open>json.loads\<close>;
  \<open>UnknownComponentType\<close>, \<open>UnknownComponent\<close> and \<open>UnknownHandler\<close> are the failures
  that the specification gives to the component tree; the others are Python's own.
\<close>

datatype error =
    KeyError
  | TypeError
  | AttributeError
  | IntegrityError
  | DecodeError
  | UnknownComponentType
  | UnknownComponent
  | UnknownHandler
  | CollaboratorError

text \<open>A method of the consumer either returns (\<^verbatim>\<open>None\<close>) or raises.\<close>

datatype outcome = Returned | Raised error

text \<open>Python's truth value of a JSON value, as tested by \<^verbatim>\<open>if x\<close> and \<^verbatim>\<open>x or y\<close>.\<close>

fun truthy :: "json \<Rightarrow> bool" where
  "truthy JNull = False"
| "truthy (JBool b) = b"
| "truthy (JNum n) = (n \<noteq> 0)"
| "truthy (JStr s) = (s \<noteq> [])"
| "truthy (JArr xs) = (xs \<noteq> [])"
| "truthy (JObj kvs) = (kvs \<noteq> [])"

text \<open>
  \<^verbatim>\<open>x[key]\<close> with a string key: a \<^verbatim>\<open>dict\<close> raises \<^verbatim>\<open>KeyError\<close> for a missing key, every
  other JSON value raises \<^verbatim>\<open>TypeError\<close> (not subscriptable, or indices must be integers).
\<close>

fun subscript :: "json \<Rightarrow> string \<Rightarrow> error + json" where
  "subscript (JObj kvs) k = (case map_of kvs k of None \<Rightarrow> Inl KeyError | Some v \<Rightarrow> Inr v)"
| "subscript _ k = Inl TypeError"

text \<open>\<^verbatim>\<open>dict(event, type=t)\<close>: a copy of the event with the key \<^verbatim>\<open>type\<close> set.\<close>

definition with_type :: "string \<Rightarrow> pdict \<Rightarrow> pdict" where
  "with_type t event = AList.update ''type'' (JStr t) event"

section \<open>The channel layer\<close>

text \<open>
  Modelled from the spec: the channel layer behind \<^verbatim>\<open>self.channel_layer\<close> is the Channels
  library's, not this repository's. It is modelled as the specification's Topic Registry:
  \<open>group_add\<close> (join) adds the channel to the topic's member set and is a no-op when it
  is already a member, \<open>group_discard\<close> (leave) removes it and is a no-op when it is absent;
  both are total. The layer also records every call, so that "no call was issued" can be
  told apart from "a call that changed nothing".
\<close>

datatype layer_call = GroupAdd string string | GroupDiscard string string

record channel_layer =
  groups :: "string \<Rightarrow> string set"
  calls :: "layer_call list"

definition group_add :: "string \<Rightarrow> string \<Rightarrow> channel_layer \<Rightarrow> channel_layer" where
  "group_add room chan l =
     l\<lparr>groups := (groups l)(room := insert chan (groups l room)),
       calls := calls l @ [GroupAdd room chan]\<rparr>"

definition group_discard :: "string \<Rightarrow> string \<Rightarrow> channel_layer \<Rightarrow> channel_layer" where
  "group_discard room chan l =
     l\<lparr>groups := (groups l)(room := groups l room - {chan}),
       calls := calls l @ [GroupDiscard room chan]\<rparr>"

section \<open>The consumer\<close>

text \<open>
  The state of one \<^verbatim>\<open>ReactorConsumer\<close>: its channel name, its set of subscribed room
  names, its root component (the component tree, of a type \<open>'t\<close> that the consumer never
  looks into), the messages it has passed to \<^verbatim>\<open>send_json\<close> (oldest first), and the channel
  layer it talks to.
\<close>

record 't consumer =
  channel_name :: string
  subscriptions :: "string set"
  root_component :: 't
  sent :: "pdict list"
  channel_layer :: channel_layer

definition send_json :: "pdict \<Rightarrow> 't consumer \<Rightarrow> 't consumer" where
  "send_json content s = s\<lparr>sent := sent s @ [content]\<rparr>"

subsection \<open>Group operations\<close>

text \<open>
  The events of \<^verbatim>\<open>subscribe\<close> and \<^verbatim>\<open>unsubscribe\<close> are dicts whose values are room names;
  every caller in the repository passes a \<^verbatim>\<open>str\<close>, so the values are typed as strings.
  \<^verbatim>\<open>event['room_name']\<close> raises \<^verbatim>\<open>KeyError\<close> when the key is missing.
\<close>

type_synonym room_event = "(string \<times> string) list"

definition subscribe :: "room_event \<Rightarrow> 't consumer \<Rightarrow> outcome \<times> 't consumer" where
  "subscribe event s =
     (case map_of event ''room_name'' of
        None \<Rightarrow> (Raised KeyError, s)
      | Some room_name \<Rightarrow>
          if room_name \<notin> subscriptions s
          then (Returned,
                s\<lparr>channel_layer := group_add room_name (channel_name s) (channel_layer s),
                  subscriptions := insert room_name (subscriptions s)\<rparr>)
          else (Returned, s))"

definition unsubscribe :: "room_event \<Rightarrow> 't consumer \<Rightarrow> outcome \<times> 't consumer" where
  "unsubscribe event s =
     (case map_of event ''room_name'' of
        None \<Rightarrow> (Raised KeyError, s)
      | Some room_name \<Rightarrow>
          if room_name \<in> subscriptions s
          then (Returned,
                s\<lparr>channel_layer := group_discard room_name (channel_name s) (channel_layer s),
                  subscriptions := subscriptions s - {room_name}\<rparr>)
          else (Returned, s))"

subsection \<open>Disconnect\<close>

text \<open>
  \<^verbatim>\<open>for room in list(self.subscriptions): self.unsubscribe({'room_name': room})\<close>.
  Python leaves the order in which a set is listed unspecified, so the snapshot
  \<^verbatim>\<open>list(self.subscriptions)\<close> is the argument \<open>rooms\<close> of the loop: any list without
  repetitions whose elements are the subscriptions. The close code is not looked at.
\<close>

fun unsubscribe_each :: "string list \<Rightarrow> 't consumer \<Rightarrow> outcome \<times> 't consumer" where
  "unsubscribe_each [] s = (Returned, s)"
| "unsubscribe_each (room # rooms) s =
     (case unsubscribe [(''room_name'', room)] s of
        (Returned, s') \<Rightarrow> unsubscribe_each rooms s'
      | (Raised e, s') \<Rightarrow> (Raised e, s'))"

definition is_snapshot :: "string list \<Rightarrow> 't consumer \<Rightarrow> bool" where
  "is_snapshot rooms s \<longleftrightarrow> distinct rooms \<and> set rooms = subscriptions s"

definition disconnect :: "string list \<Rightarrow> int \<Rightarrow> 't consumer \<Rightarrow> outcome \<times> 't consumer" where
  "disconnect rooms close_code s = unsubscribe_each rooms s"

section \<open>Collaborators\<close>

text \<open>
  What the consumer calls but does not define. \<^verbatim>\<open>Signer\<close> is Django's; \<^verbatim>\<open>json\<close>,
  \<^verbatim>\<open>extract_data\<close>, \<^verbatim>\<open>RootComponent\<close> and \<^verbatim>\<open>Component\<close> are modules of the repository
  whose code is not at hand. They are parameters of the consumer's methods:
  \<^item> \<open>unsign\<close>: \<^verbatim>\<open>self.signer.unsign(state)\<close>, returning the signed text or raising:
    \<open>IntegrityError\<close> when the signature does not validate under the signer's key, and
    whatever else the signer raises for a state that is not a signed string;
  \<^item> \<open>loads\<close>: \<^verbatim>\<open>json.loads\<close>, \<open>None\<close> when the text does not decode;
  \<^item> \<open>extract_data\<close>: \<^verbatim>\<open>utils.extract_data\<close>, returning a dict or raising;
  \<^item> \<open>get_or_create\<close>, \<open>pop\<close>: the methods of the root component that create and destroy
    components. The root component is built from the connection's scope, which carries
    the channel name (\<^verbatim>\<open>connect\<close>), so what it does can reach the connection's
    subscriptions: these two take the consumer and return it, with a value or an
    exception;
  \<^item> \<open>dispatch_user_event\<close>: the method of the root component that runs a handler, taking
    the tree and returning it with the diff or an exception;
  \<^item> \<open>render_diff\<close>, \<open>component_id\<close>: \<^verbatim>\<open>component._render_diff()\<close> and \<^verbatim>\<open>component.id\<close>
    of a component \<open>'c\<close> handed out by \<open>get_or_create\<close>.
\<close>

record ('t, 'c) collaborators =
  unsign :: "json \<Rightarrow> error + string"
  loads :: "string \<Rightarrow> json option"
  extract_data :: "json \<Rightarrow> error + pdict"
  get_or_create :: "json \<Rightarrow> json \<Rightarrow> pdict \<Rightarrow> 't consumer \<Rightarrow> (error + 'c) \<times> 't consumer"
  component_id :: "'c \<Rightarrow> json"
  render_diff :: "'c \<Rightarrow> 't \<Rightarrow> (error + json) \<times> 't"
  dispatch_user_event :: "json \<Rightarrow> json \<Rightarrow> pdict \<Rightarrow> 't \<Rightarrow> (error + json) \<times> 't"
  pop :: "json \<Rightarrow> 't consumer \<Rightarrow> (error + unit) \<times> 't consumer"

section \<open>Broadcasters\<close>

text \<open>
  \<^verbatim>\<open>render\<close> sends only when \<^verbatim>\<open>event['html_diff']\<close> is true; the log line inside the
  branch reads \<^verbatim>\<open>event['id']\<close>, so an event without that key raises there, before the send.
\<close>

definition render :: "pdict \<Rightarrow> 't consumer \<Rightarrow> outcome \<times> 't consumer" where
  "render event s =
     (case map_of event ''html_diff'' of
        None \<Rightarrow> (Raised KeyError, s)
      | Some html_diff \<Rightarrow>
          if truthy html_diff
          then (case map_of event ''id'' of
                  None \<Rightarrow> (Raised KeyError, s)
                | Some _ \<Rightarrow> (Returned, send_json (with_type ''render'' event) s))
          else (Returned, s))"

section \<open>Dispatching\<close>

text \<open>
  The methods of the consumer that the inbound commands reach. Python's parameter \<^verbatim>\<open>id\<close>
  is written \<open>ident\<close>. A method returns its outcome with the consumer as the call has
  left it; an exception that a collaborator raises leaves with the consumer as the
  collaborator has left it. No method catches an exception. \<^verbatim>\<open>connect\<close>, \<^verbatim>\<open>update\<close> and \<^verbatim>\<open>visit\<close> are not needed below.
\<close>

definition receive_join ::
  "('t, 'c) collaborators \<Rightarrow> json \<Rightarrow> json \<Rightarrow> json \<Rightarrow> 't consumer \<Rightarrow> outcome \<times> 't consumer" where
  "receive_join E tag_name ident state s =
     (case unsign E state of
        Inl e \<Rightarrow> (Raised e, s)
      | Inr text \<Rightarrow>
          (case loads E text of
             None \<Rightarrow> (Raised DecodeError, s)
           | Some (JObj kw) \<Rightarrow>
               \<comment> \<open>\<^verbatim>\<open>get_or_create(tag_name, id=id, **state)\<close>: a second \<^verbatim>\<open>id\<close> is a \<^verbatim>\<open>TypeError\<close>\<close>
               if ''id'' \<in> fst ` set kw then (Raised TypeError, s)
               else (case get_or_create E tag_name ident kw s of
                       (Inl e, s') \<Rightarrow> (Raised e, s')
                     | (Inr component, s') \<Rightarrow>
                         (case render_diff E component (root_component s') of
                            (Inl e, t) \<Rightarrow> (Raised e, s'\<lparr>root_component := t\<rparr>)
                          | (Inr html_diff, t) \<Rightarrow>
                              render [(''id'', component_id E component), (''html_diff'', html_diff)]
                                (s'\<lparr>root_component := t\<rparr>)))
           | Some _ \<Rightarrow> (Raised TypeError, s)))"

text \<open>
  \<^verbatim>\<open>dict(a, **b)\<close>: the keys of \<open>a\<close> in their order, each with the value of \<open>b\<close> where \<open>b\<close>
  has the key, then the new keys of \<open>b\<close> in their order.
\<close>

definition dict_merge :: "pdict \<Rightarrow> pdict \<Rightarrow> pdict" where
  "dict_merge a b = fold (\<lambda>(k, v). AList.update k v) b a"

text \<open>
  Lines 79 and 80 of \<^verbatim>\<open>receive_user_event\<close>:
  \<^verbatim>\<open>explicit_args = explicit_args or {}\<close> and
  \<^verbatim>\<open>kwargs = dict(extract_data(implicit_args), **explicit_args)\<close>.
  \<^verbatim>\<open>extract_data\<close> is called first; unpacking something that is not a dict is a \<^verbatim>\<open>TypeError\<close>.
\<close>

definition user_event_kwargs :: "('t, 'c) collaborators \<Rightarrow> json \<Rightarrow> json \<Rightarrow> error + pdict" where
  "user_event_kwargs E implicit_args explicit_args =
     (let explicit_args = (if truthy explicit_args then explicit_args else JObj [])
      in case extract_data E implicit_args of
           Inl e \<Rightarrow> Inl e
         | Inr data \<Rightarrow>
             (case explicit_args of
                JObj kw \<Rightarrow> Inr (dict_merge data kw)
              | _ \<Rightarrow> Inl TypeError))"

definition receive_user_event ::
  "('t, 'c) collaborators \<Rightarrow> json \<Rightarrow> json \<Rightarrow> json \<Rightarrow> json \<Rightarrow> 't consumer \<Rightarrow> outcome \<times> 't consumer" where
  "receive_user_event E ident name implicit_args explicit_args s =
     (case user_event_kwargs E implicit_args explicit_args of
        Inl e \<Rightarrow> (Raised e, s)
      | Inr kwargs \<Rightarrow>
          (case dispatch_user_event E ident name kwargs (root_component s) of
             (Inl e, t) \<Rightarrow> (Raised e, s\<lparr>root_component := t\<rparr>)
           | (Inr html_diff, t) \<Rightarrow>
               render [(''id'', ident), (''html_diff'', html_diff)] (s\<lparr>root_component := t\<rparr>)))"

definition receive_leave ::
  "('t, 'c) collaborators \<Rightarrow> json \<Rightarrow> 't consumer \<Rightarrow> outcome \<times> 't consumer" where
  "receive_leave E ident s =
     (case pop E ident s of
        (Inl e, s') \<Rightarrow> (Raised e, s')
      | (Inr _, s') \<Rightarrow> (Returned, s'))"


subsection \<open>The internal event\<close>

text \<open>
  A Python call with positional arguments only: \<^verbatim>\<open>receive_user_event\<close> has four parameters
  and no defaults, so any other number of arguments raises \<^verbatim>\<open>TypeError\<close> before the body
  runs.
\<close>

definition call_receive_user_event ::
  "('t, 'c) collaborators \<Rightarrow> json list \<Rightarrow> 't consumer \<Rightarrow> outcome \<times> 't consumer" where
  "call_receive_user_event E args s =
     (case args of
        [ident, name, implicit_args, explicit_args] \<Rightarrow>
          receive_user_event E ident name implicit_args explicit_args s
      | _ \<Rightarrow> (Raised TypeError, s))"

text \<open>
  \<^verbatim>\<open>send_component\<close> evaluates \<^verbatim>\<open>event['state']['id']\<close>, \<^verbatim>\<open>event['name']\<close> and
  \<^verbatim>\<open>event['state']\<close>, in this order, and calls \<^verbatim>\<open>receive_user_event\<close> with the three.
\<close>

definition send_component ::
  "('t, 'c) collaborators \<Rightarrow> pdict \<Rightarrow> 't consumer \<Rightarrow> outcome \<times> 't consumer" where
  "send_component E event s =
     (case map_of event ''state'' of
        None \<Rightarrow> (Raised KeyError, s)
      | Some state \<Rightarrow>
          (case subscript state ''id'' of
             Inl e \<Rightarrow> (Raised e, s)
           | Inr ident \<Rightarrow>
               (case map_of event ''name'' of
                  None \<Rightarrow> (Raised KeyError, s)
                | Some name \<Rightarrow> call_receive_user_event E [ident, name, state] s)))"

subsection \<open>Dispatch by name\<close>

text \<open>
  \<^verbatim>\<open>getattr(self, f'receive_{name}')\<close>. The class defines four methods whose names start
  with \<^verbatim>\<open>receive_\<close>: the three commands and \<^verbatim>\<open>receive_json\<close> itself. A name that is not a
  string is formatted (\<^verbatim>\<open>None\<close>, \<^verbatim>\<open>True\<close>, digits, brackets) to something that is none of the
  four. The base classes of Channels add no further attribute with this prefix.
\<close>

datatype receiver = ReceiveJoin | ReceiveUserEvent | ReceiveLeave | ReceiveJson

fun getattr_receive :: "json \<Rightarrow> receiver option" where
  "getattr_receive (JStr name) =
     (if name = ''join'' then Some ReceiveJoin
      else if name = ''user_event'' then Some ReceiveUserEvent
      else if name = ''leave'' then Some ReceiveLeave
      else if name = ''json'' then Some ReceiveJson
      else None)"
| "getattr_receive _ = None"

text \<open>
  \<^verbatim>\<open>method(**payload)\<close> for a method whose parameters \<open>params\<close> have no defaults: the
  payload must be a dict with exactly these keys, anything else is a \<^verbatim>\<open>TypeError\<close>. The
  result is the list of the arguments in the order of the parameters.
\<close>

fun bind_kwargs :: "string list \<Rightarrow> json \<Rightarrow> error + json list" where
  "bind_kwargs params (JObj kw) =
     (case those (map (map_of kw) params) of
        None \<Rightarrow> Inl TypeError
      | Some args \<Rightarrow> if set (map fst kw) \<subseteq> set params then Inr args else Inl TypeError)"
| "bind_kwargs params _ = Inl TypeError"

lemma map_of_size:
  "map_of kw k = Some v \<Longrightarrow> size v < Suc (size_list (size_prod (\<lambda>_. 0) size) kw)"
  by (induction kw) (auto split: if_splits)

lemma subscript_size: "subscript j k = Inr v \<Longrightarrow> size v < size j"
  by (cases j) (auto split: option.splits dest: map_of_size)

lemma those_map_of_size:
  "those (map (map_of kw) params) = Some args \<Longrightarrow> a \<in> set args
   \<Longrightarrow> size a < Suc (size_list (size_prod (\<lambda>_. 0) size) kw)"
  by (induction params arbitrary: args) (auto split: option.splits dest: map_of_size)

lemma bind_kwargs_size: "bind_kwargs params j = Inr args \<Longrightarrow> a \<in> set args \<Longrightarrow> size a < size j"
  by (cases j) (auto split: option.splits if_splits dest: those_map_of_size)

function receive_json ::
  "('t, 'c) collaborators \<Rightarrow> json \<Rightarrow> 't consumer \<Rightarrow> outcome \<times> 't consumer" where
  "receive_json E request s =
     (case subscript request ''command'' of
        Inl e \<Rightarrow> (Raised e, s)
      | Inr name \<Rightarrow>
          (case subscript request ''payload'' of
             Inl e \<Rightarrow> (Raised e, s)
           | Inr payload \<Rightarrow>
               (case getattr_receive name of
                  None \<Rightarrow> (Raised AttributeError, s)
                | Some ReceiveJoin \<Rightarrow>
                    (case bind_kwargs [''tag_name'', ''id'', ''state''] payload of
                       Inl e \<Rightarrow> (Raised e, s)
                     | Inr args \<Rightarrow>
                         (case args of
                            [tag_name, ident, state] \<Rightarrow> receive_join E tag_name ident state s
                          | _ \<Rightarrow> (Raised TypeError, s)))
                | Some ReceiveUserEvent \<Rightarrow>
                    (case bind_kwargs [''id'', ''name'', ''implicit_args'', ''explicit_args''] payload of
                       Inl e \<Rightarrow> (Raised e, s)
                     | Inr args \<Rightarrow> call_receive_user_event E args s)
                | Some ReceiveLeave \<Rightarrow>
                    (case bind_kwargs [''id''] payload of
                       Inl e \<Rightarrow> (Raised e, s)
                     | Inr args \<Rightarrow>
                         (case args of
                            [ident] \<Rightarrow> receive_leave E ident s
                          | _ \<Rightarrow> (Raised TypeError, s)))
                | Some ReceiveJson \<Rightarrow>
                    (case bind_kwargs [''request''] payload of
                       Inl e \<Rightarrow> (Raised e, s)
                     | Inr args \<Rightarrow>
                         (case args of
                            [request'] \<Rightarrow> receive_json E request' s
                          | _ \<Rightarrow> (Raised TypeError, s))))))"
  by pat_completeness auto
termination
proof (relation "measure (\<lambda>(E, request, s). size request)")
  show "wf (measure (\<lambda>(E, request, s). size request))"
    by simp
next
  fix E :: "('t, 'c) collaborators" and s :: "'t consumer"
    and request name payload x args request' rest
  assume "subscript request ''payload'' = Inr payload"
    and "bind_kwargs [''request''] payload = Inr args"
    and "args = request' # rest"
  then have "size request' < size payload" and "size payload < size request"
    by (auto dest: bind_kwargs_size subscript_size)
  then show "((E, request', s), (E, request, s)) \<in> measure (\<lambda>(E, request, s). size request)"
    by simp
qed

section \<open>The connection\<close>

text \<open>
  What drives the consumer is the \<^verbatim>\<open>JsonWebsocketConsumer\<close> of the Channels library, which
  is not code of this repository: for every inbound frame its handler
  \<^verbatim>\<open>websocket_receive\<close> decodes the text and calls \<^verbatim>\<open>receive_json\<close> with the content.
  \<^verbatim>\<open>receive_json\<close> has no \<^verbatim>\<open>try\<close>, and no method of the class has one; the library's
  dispatch does not catch what a handler raises either. An exception that leaves
  \<^verbatim>\<open>receive_json\<close> therefore ends the consumer, and the server closes the socket. A
  connection is connected, with its consumer, or terminated by the exception that ended
  it.
\<close>

datatype 't connection = Connected "'t consumer" | Terminated error

definition websocket_receive ::
  "('t, 'c) collaborators \<Rightarrow> json \<Rightarrow> 't connection \<Rightarrow> 't connection" where
  "websocket_receive E content c =
     (case c of
        Terminated e \<Rightarrow> Terminated e
      | Connected s \<Rightarrow>
          (case receive_json E content s of
             (Returned, s') \<Rightarrow> Connected s'
           | (Raised e, s') \<Rightarrow> Terminated e))"

section \<open>The todo item component\<close>

text \<open>
  \<^verbatim>\<open>XTodoItem.mount\<close> of \<^verbatim>\<open>tests/fision/todo/live.py\<close>. The data store is the function
  \<open>find_item\<close>, for \<^verbatim>\<open>Item.objects.filter(id=self.id).first()\<close>: the record with this id, or
  \<^verbatim>\<open>None\<close>. The calls that \<^verbatim>\<open>mount\<close> makes on its own component, \<^verbatim>\<open>self.subscribe(room)\<close>
  and \<^verbatim>\<open>self.send_destroy()\<close>, are returned in the order they are made, with the fields
  that \<^verbatim>\<open>mount\<close> has set. The keyword arguments come from the decoded state of a
  \<^verbatim>\<open>join\<close>, so \<^verbatim>\<open>item\<close> is a JSON value: when it is true, \<^verbatim>\<open>self.item.id\<close> is read on a value
  that has no such attribute.
\<close>

record item =
  item_id :: nat
  item_text :: string
  item_completed :: bool

datatype mount_call = Subscribe string | SendDestroy

text \<open>\<^verbatim>\<open>str(n)\<close> of a record's id, for the room name \<^verbatim>\<open>f'item.{self.item.id}'\<close>.\<close>

fun str_nat :: "nat \<Rightarrow> string" where
  "str_nat n =
     (if n < 10 then [char_of (48 + n)]
      else str_nat (n div 10) @ [char_of (48 + n mod 10)])"

definition kwarg :: "pdict \<Rightarrow> string \<Rightarrow> json \<Rightarrow> json" where
  "kwarg kwargs k dflt = (case map_of kwargs k of None \<Rightarrow> dflt | Some v \<Rightarrow> v)"

definition XTodoItem_mount ::
  "(json \<Rightarrow> item option) \<Rightarrow> json \<Rightarrow> pdict \<Rightarrow> error + pdict \<times> mount_call list" where
  "XTodoItem_mount find_item self_id kwargs =
     (let item = kwarg kwargs ''item'' JNull;
          editing = kwarg kwargs ''editing'' (JBool False);
          showing = kwarg kwargs ''showing'' (JStr ''all'');
          attrs = [(''editing'', editing), (''showing'', showing)]
      in if truthy item then Inl AttributeError
         else (case find_item self_id of
                 Some found \<Rightarrow> Inr (attrs, [Subscribe (''item.'' @ str_nat (item_id found))])
               | None \<Rightarrow> Inr (attrs, [SendDestroy])))"

section \<open>The component tree\<close>

text \<open>
  Modelled from the spec: \<^verbatim>\<open>reactor/component.py\<close> (\<^verbatim>\<open>RootComponent\<close>, \<^verbatim>\<open>Component\<close>) is
  missing. The definitions of this section follow section 4.3 of the specification:
  a session's tree is a hierarchy of component instances, each with a tag name, an id,
  the topics it is subscribed to, its state, the output last sent for it, and its children.
\<close>

datatype component =
  Component (tag: string) (cid: json) (topics: "string list") (attrs: pdict)
    (last_html: json) (destroy_sent: bool) (children: "component list")

type_synonym tree = "component list"

text \<open>
  The registry of component types that the tree consumes: for each tag a constructor (its
  \<^verbatim>\<open>mount\<close>) and a table of handlers, and the rendering and diff collaborators.
\<close>

record registry =
  constructor :: "string \<Rightarrow> (json \<Rightarrow> pdict \<Rightarrow> error + pdict \<times> mount_call list) option"
  handler :: "string \<Rightarrow> string \<Rightarrow> (component \<Rightarrow> pdict \<Rightarrow> error + component) option"
  renderer :: "component \<Rightarrow> json"
  differ :: "json \<Rightarrow> json \<Rightarrow> json"

text \<open>The first component of the hierarchy, parents before children, that satisfies \<open>P\<close>.\<close>

fun lookup :: "(component \<Rightarrow> bool) \<Rightarrow> tree \<Rightarrow> component option" where
  "lookup P [] = None"
| "lookup P (Component t i tp a h d ch # cs) =
     (if P (Component t i tp a h d ch) then Some (Component t i tp a h d ch)
      else (case lookup P ch of Some c \<Rightarrow> Some c | None \<Rightarrow> lookup P cs))"

text \<open>
  Modelled from the spec: \<^verbatim>\<open>destroy(id)\<close> "removes the component and all its topic
  subscriptions; recursively destroys children whose lifetime is owned by the removed
  component", and "removing a component must remove all its topic memberships".
  \<open>destroy\<close> takes the component with this id out of the hierarchy, with everything below
  it; \<open>released\<close> lists the topics of the components taken out; \<open>tree_pop\<close> does both
  to the connection: the components leave the tree, and the connection unsubscribes
  from each of their topics, through its own \<^verbatim>\<open>unsubscribe\<close>.
\<close>

fun destroy :: "json \<Rightarrow> tree \<Rightarrow> tree" where
  "destroy ident [] = []"
| "destroy ident (Component t i tp a h d ch # cs) =
     (if i = ident then destroy ident cs
      else Component t i tp a h d (destroy ident ch) # destroy ident cs)"

fun all_topics :: "tree \<Rightarrow> string list" where
  "all_topics [] = []"
| "all_topics (Component t i tp a h d ch # cs) = tp @ all_topics ch @ all_topics cs"

fun released :: "json \<Rightarrow> tree \<Rightarrow> string list" where
  "released ident [] = []"
| "released ident (Component t i tp a h d ch # cs) =
     (if i = ident then tp @ all_topics ch @ released ident cs
      else released ident ch @ released ident cs)"

definition tree_pop :: "json \<Rightarrow> tree consumer \<Rightarrow> (error + unit) \<times> tree consumer" where
  "tree_pop ident s =
     (case unsubscribe_each (released ident (root_component s))
             (s\<lparr>root_component := destroy ident (root_component s)\<rparr>) of
        (Returned, s') \<Rightarrow> (Inr (), s')
      | (Raised e, s') \<Rightarrow> (Inl e, s'))"

text \<open>Storing a changed component in the place of the one with its id.\<close>

fun store :: "component \<Rightarrow> tree \<Rightarrow> tree" where
  "store c [] = []"
| "store c (Component t i tp a h d ch # cs) =
     (if i = cid c then c # cs
      else Component t i tp a h d (store c ch) # store c cs)"

text \<open>
  Modelled from the spec: \<^verbatim>\<open>get_or_create(tag_name, id, construction_args)\<close> returns the
  component at this address unchanged when there is one; otherwise it runs the tag's
  registered constructor and inserts the new component, and fails with
  \<open>UnknownComponentType\<close> for a tag that is not registered. A component that requests its
  own destruction while it is constructed is not inserted: "the tree must treat the slot
  as never having existed for subsequent lookups". The constructor "may register topic
  subscriptions (delegates to Topic Registry via the owning connection)": the topics that
  it subscribes to are recorded in the component, and the connection subscribes to each
  of them, through its own \<^verbatim>\<open>subscribe\<close>.
\<close>

fun subscribe_each :: "string list \<Rightarrow> 't consumer \<Rightarrow> outcome \<times> 't consumer" where
  "subscribe_each [] s = (Returned, s)"
| "subscribe_each (room # rooms) s =
     (case subscribe [(''room_name'', room)] s of
        (Returned, s') \<Rightarrow> subscribe_each rooms s'
      | (Raised e, s') \<Rightarrow> (Raised e, s'))"

definition tree_get_or_create ::
  "registry \<Rightarrow> json \<Rightarrow> json \<Rightarrow> pdict \<Rightarrow> tree consumer
   \<Rightarrow> (error + component) \<times> tree consumer" where
  "tree_get_or_create R tag_name ident construction_args s =
     (case tag_name of
        JStr name \<Rightarrow>
          (case lookup (\<lambda>c. tag c = name \<and> cid c = ident) (root_component s) of
             Some c \<Rightarrow> (Inr c, s)
           | None \<Rightarrow>
               (case constructor R name of
                  None \<Rightarrow> (Inl UnknownComponentType, s)
                | Some mount \<Rightarrow>
                    (case mount ident construction_args of
                       Inl e \<Rightarrow> (Inl e, s)
                     | Inr (mounted, made) \<Rightarrow>
                         (let c = Component name ident [room. Subscribe room \<leftarrow> made] mounted JNull
                                    (SendDestroy \<in> set made) []
                          in if destroy_sent c then (Inr c, s)
                             else (case subscribe_each (topics c)
                                          (s\<lparr>root_component := root_component s @ [c]\<rparr>) of
                                     (Returned, s') \<Rightarrow> (Inr c, s')
                                   | (Raised e, s') \<Rightarrow> (Inl e, s'))))))
      | _ \<Rightarrow> (Inl UnknownComponentType, s))"

text \<open>
  Modelled from the spec: \<^verbatim>\<open>render_diff(component)\<close> "invokes the rendering collaborator
  to compute a diff between the component's last-sent output and its current output";
  for a component that requested its destruction "no render event is ever emitted", so
  its diff is none.
\<close>

definition tree_render_diff :: "registry \<Rightarrow> component \<Rightarrow> tree \<Rightarrow> (error + json) \<times> tree" where
  "tree_render_diff R c t =
     (if destroy_sent c then (Inr JNull, t)
      else (case c of
              Component name i tp a h d ch \<Rightarrow>
                (Inr (differ R h (renderer R c)),
                 store (Component name i tp a (renderer R c) d ch) t)))"

text \<open>
  Modelled from the spec: \<^verbatim>\<open>dispatch_user_event(id, event_name, kwargs)\<close> "looks up the
  component by id anywhere in the session's tree, invokes its handler named by
  \<^verbatim>\<open>event_name\<close> with \<^verbatim>\<open>kwargs\<close>, then renders the diff. Fails with \<open>UnknownComponent\<close> if
  \<^verbatim>\<open>id\<close> has no live component, \<open>UnknownHandler\<close> if the component has no handler
  registered for \<^verbatim>\<open>event_name\<close>".
\<close>

definition tree_dispatch_user_event ::
  "registry \<Rightarrow> json \<Rightarrow> json \<Rightarrow> pdict \<Rightarrow> tree \<Rightarrow> (error + json) \<times> tree" where
  "tree_dispatch_user_event R ident event_name kwargs t =
     (case lookup (\<lambda>c. cid c = ident) t of
        None \<Rightarrow> (Inl UnknownComponent, t)
      | Some c \<Rightarrow>
          (case (case event_name of JStr name \<Rightarrow> handler R (tag c) name | _ \<Rightarrow> None) of
             None \<Rightarrow> (Inl UnknownHandler, t)
           | Some handle \<Rightarrow>
               (case handle c kwargs of
                  Inl e \<Rightarrow> (Inl e, t)
                | Inr c' \<Rightarrow> tree_render_diff R c' (store c' t))))"

text \<open>
  The collaborators of a consumer whose root component is such a tree; the signer, the
  JSON decoder and \<^verbatim>\<open>extract_data\<close> stay parameters.
\<close>

definition tree_collaborators ::
  "(json \<Rightarrow> error + string) \<Rightarrow> (string \<Rightarrow> json option) \<Rightarrow> (json \<Rightarrow> error + pdict) \<Rightarrow> registry
   \<Rightarrow> (tree, component) collaborators" where
  "tree_collaborators signer_unsign json_loads extract R =
     \<lparr>unsign = signer_unsign, loads = json_loads, extract_data = extract,
      get_or_create = tree_get_or_create R, component_id = cid,
      render_diff = tree_render_diff R,
      dispatch_user_event = tree_dispatch_user_event R,
      pop = tree_pop\<rparr>"

section \<open>A concrete session\<close>

text \<open>
  A registry with the todo item over an empty data store, collaborators whose signer
  accepts one envelope, and a consumer that has joined one counter component and is
  subscribed to the room \<^verbatim>\<open>item\<close>. The theorems below are instantiated at them.
\<close>

definition example_registry :: registry where
  "example_registry =
     \<lparr>constructor = (\<lambda>name. if name = ''XTodoItem'' then Some (XTodoItem_mount (\<lambda>_. None)) else None),
      handler = (\<lambda>tag name. None),
      renderer = (\<lambda>c. JStr ''<div></div>''),
      differ = (\<lambda>old new. if old = new then JNull else new)\<rparr>"

definition example_unsign :: "json \<Rightarrow> error + string" where
  "example_unsign state =
     (case state of
        JStr signed \<Rightarrow> if signed = ''{}:good'' then Inr ''{}'' else Inl IntegrityError
      | _ \<Rightarrow> Inl TypeError)"

definition example_loads :: "string \<Rightarrow> json option" where
  "example_loads text = (if text = ''{}'' then Some (JObj []) else None)"

definition example_extract_data :: "json \<Rightarrow> error + pdict" where
  "example_extract_data implicit_args =
     (case implicit_args of JObj kw \<Rightarrow> Inr kw | _ \<Rightarrow> Inl TypeError)"

definition example_collaborators :: "(tree, component) collaborators" where
  "example_collaborators =
     tree_collaborators example_unsign example_loads example_extract_data example_registry"

definition example_consumer :: "tree consumer" where
  "example_consumer =
     \<lparr>channel_name = ''chan.1'',
      subscriptions = {''item''},
      root_component = [Component ''XTodoCounter'' (JNum 1) [''item''] [] JNull False []],
      sent = [],
      channel_layer =
        \<lparr>groups = (\<lambda>room. if room = ''item'' then {''chan.1''} else {}),
         calls = [GroupAdd ''item'' ''chan.1'']\<rparr>\<rparr>"

section \<open>Subscribing and unsubscribing\<close>

text \<open>
  C5. Subscribe and unsubscribe are idempotent per connection. For every event that
  carries a room name: subscribing to a room that is already in the subscription set
  returns the consumer unchanged, so the set is the same and no \<^verbatim>\<open>group_add\<close> is issued
  (the channel layer, with its record of calls, is part of the consumer); unsubscribing
  from a room that is not in the set returns the consumer unchanged, so no
  \<^verbatim>\<open>group_discard\<close> is issued; and a second subscribe, or a second unsubscribe, changes
  nothing after the first.
\<close>

theorem subscribe_unsubscribe_idempotent:
  assumes "map_of event ''room_name'' = Some room"
  shows "(room \<in> subscriptions s \<longrightarrow> subscribe event s = (Returned, s))
       \<and> (room \<notin> subscriptions s \<longrightarrow> unsubscribe event s = (Returned, s))
       \<and> subscribe event (snd (subscribe event s)) = (Returned, snd (subscribe event s))
       \<and> unsubscribe event (snd (unsubscribe event s)) = (Returned, snd (unsubscribe event s))"
  using assms by (simp add: subscribe_def unsubscribe_def)

theorem subscribe_unsubscribe_idempotent_witness:
  "subscribe [(''room_name'', ''item'')] example_consumer = (Returned, example_consumer)
   \<and> unsubscribe [(''room_name'', ''item.new'')] example_consumer = (Returned, example_consumer)"
  using subscribe_unsubscribe_idempotent [of "[(''room_name'', ''item'')]" "''item''" example_consumer]
    subscribe_unsubscribe_idempotent [of "[(''room_name'', ''item.new'')]" "''item.new''" example_consumer]
  by (simp add: example_consumer_def)

section \<open>Disconnecting\<close>

lemma unsubscribe_step:
  "room \<in> subscriptions s \<Longrightarrow>
   unsubscribe [(''room_name'', room)] s =
     (Returned, s\<lparr>channel_layer := group_discard room (channel_name s) (channel_layer s),
                   subscriptions := subscriptions s - {room}\<rparr>)"
  by (simp add: unsubscribe_def)

lemma unsubscribe_each_result:
  "distinct rooms \<Longrightarrow> set rooms \<subseteq> subscriptions s \<Longrightarrow>
   \<exists>s'. unsubscribe_each rooms s = (Returned, s')
     \<and> subscriptions s' = subscriptions s - set rooms
     \<and> calls (channel_layer s') =
         calls (channel_layer s) @ map (\<lambda>room. GroupDiscard room (channel_name s)) rooms
     \<and> (\<forall>room. groups (channel_layer s') room =
           (if room \<in> set rooms then groups (channel_layer s) room - {channel_name s}
            else groups (channel_layer s) room))
     \<and> channel_name s' = channel_name s \<and> root_component s' = root_component s
     \<and> sent s' = sent s"
proof (induction rooms arbitrary: s)
  case Nil
  then show ?case by simp
next
  case (Cons room rooms)
  define s1 where "s1 = s\<lparr>channel_layer := group_discard room (channel_name s) (channel_layer s),
                          subscriptions := subscriptions s - {room}\<rparr>"
  from Cons.prems have r: "room \<in> subscriptions s" and nr: "room \<notin> set rooms"
    and d: "distinct rooms" by auto
  have step: "unsubscribe [(''room_name'', room)] s = (Returned, s1)"
    unfolding s1_def using r by (rule unsubscribe_step)
  have sub: "set rooms \<subseteq> subscriptions s1"
    using Cons.prems nr by (auto simp: s1_def)
  from Cons.IH [OF d sub] obtain s' where
    run: "unsubscribe_each rooms s1 = (Returned, s')"
    and subs: "subscriptions s' = subscriptions s1 - set rooms"
    and cs: "calls (channel_layer s') =
               calls (channel_layer s1) @ map (\<lambda>room. GroupDiscard room (channel_name s1)) rooms"
    and gs: "\<forall>room. groups (channel_layer s') room =
               (if room \<in> set rooms then groups (channel_layer s1) room - {channel_name s1}
                else groups (channel_layer s1) room)"
    and rest: "channel_name s' = channel_name s1" "root_component s' = root_component s1"
      "sent s' = sent s1"
    by blast
  have 1: "unsubscribe_each (room # rooms) s = (Returned, s')"
    by (simp add: step run)
  have 2: "subscriptions s' = subscriptions s - set (room # rooms)"
    using subs by (auto simp: s1_def)
  have 3: "calls (channel_layer s') =
             calls (channel_layer s) @ map (\<lambda>room. GroupDiscard room (channel_name s)) (room # rooms)"
    using cs by (simp add: s1_def group_discard_def)
  have 4: "\<forall>x. groups (channel_layer s') x =
             (if x \<in> set (room # rooms) then groups (channel_layer s) x - {channel_name s}
              else groups (channel_layer s) x)"
    using gs nr by (simp add: s1_def group_discard_def)
  have 5: "channel_name s' = channel_name s \<and> root_component s' = root_component s
             \<and> sent s' = sent s"
    using rest by (simp add: s1_def)
  from 1 2 3 4 5 show ?case by blast
qed

text \<open>
  C4. On disconnect, whatever the close code (so also when an error caused it) and in
  whatever order the subscription set is listed: the loop returns; one \<^verbatim>\<open>group_discard\<close>
  is issued for every room of the subscription set at disconnect time, for this
  consumer's channel; afterwards the subscription set is empty, the channel has left the
  group of each of these rooms, and, when the channel was in no other group (it joins
  groups only through \<^verbatim>\<open>subscribe\<close>), it is a member of no group at all.
\<close>

theorem disconnect_releases_every_subscription:
  assumes "is_snapshot rooms s"
  shows "\<exists>s'. disconnect rooms close_code s = (Returned, s')
           \<and> subscriptions s' = {}
           \<and> calls (channel_layer s') =
               calls (channel_layer s) @ map (\<lambda>room. GroupDiscard room (channel_name s)) rooms
           \<and> (\<forall>room. groups (channel_layer s') room =
                 (if room \<in> subscriptions s then groups (channel_layer s) room - {channel_name s}
                  else groups (channel_layer s) room))
           \<and> ((\<forall>room. channel_name s \<in> groups (channel_layer s) room \<longrightarrow> room \<in> subscriptions s)
                \<longrightarrow> (\<forall>room. channel_name s \<notin> groups (channel_layer s') room))
           \<and> channel_name s' = channel_name s \<and> root_component s' = root_component s
           \<and> sent s' = sent s"
proof -
  from assms have d: "distinct rooms" and e: "set rooms = subscriptions s"
    by (simp_all add: is_snapshot_def)
  then have "set rooms \<subseteq> subscriptions s" by simp
  from unsubscribe_each_result [OF d this] obtain s' where
    "unsubscribe_each rooms s = (Returned, s')"
    "subscriptions s' = subscriptions s - set rooms"
    "calls (channel_layer s') =
       calls (channel_layer s) @ map (\<lambda>room. GroupDiscard room (channel_name s)) rooms"
    "\<forall>room. groups (channel_layer s') room =
           (if room \<in> set rooms then groups (channel_layer s) room - {channel_name s}
            else groups (channel_layer s) room)"
    "channel_name s' = channel_name s" "root_component s' = root_component s" "sent s' = sent s"
    by blast
  with e show ?thesis
    by (intro exI [of _ s']) (auto simp: disconnect_def)
qed

theorem disconnect_releases_every_subscription_witness:
  "is_snapshot [''item''] example_consumer
   \<and> (\<exists>s'. disconnect [''item''] 1006 example_consumer = (Returned, s')
        \<and> subscriptions s' = {}
        \<and> calls (channel_layer s') = [GroupAdd ''item'' ''chan.1'', GroupDiscard ''item'' ''chan.1'']
        \<and> (\<forall>room. ''chan.1'' \<notin> groups (channel_layer s') room))"
proof -
  have i: "is_snapshot [''item''] example_consumer"
    by (simp add: is_snapshot_def example_consumer_def)
  from disconnect_releases_every_subscription [OF i, of 1006] obtain s' where
    r: "disconnect [''item''] 1006 example_consumer = (Returned, s')"
    and a: "subscriptions s' = {}"
    and c: "calls (channel_layer s') =
              calls (channel_layer example_consumer)
              @ map (\<lambda>room. GroupDiscard room (channel_name example_consumer)) [''item'']"
    and g: "(\<forall>room. channel_name example_consumer \<in> groups (channel_layer example_consumer) room
                \<longrightarrow> room \<in> subscriptions example_consumer)
            \<longrightarrow> (\<forall>room. channel_name example_consumer \<notin> groups (channel_layer s') room)"
    by blast
  have n: "channel_name example_consumer = ''chan.1''"
    by (simp add: example_consumer_def)
  have inv: "\<forall>room. channel_name example_consumer \<in> groups (channel_layer example_consumer) room
                \<longrightarrow> room \<in> subscriptions example_consumer"
    by (simp add: example_consumer_def)
  from g inv n have g': "\<forall>room. ''chan.1'' \<notin> groups (channel_layer s') room"
    by simp
  from c have c': "calls (channel_layer s') =
                     [GroupAdd ''item'' ''chan.1'', GroupDiscard ''item'' ''chan.1'']"
    by (simp add: example_consumer_def)
  from i r a c' g' show ?thesis by blast
qed

section \<open>Rendering\<close>

text \<open>
  C3. For every render event, that is an event that carries \<^verbatim>\<open>html_diff\<close> and \<^verbatim>\<open>id\<close>, a
  render message is sent if and only if the diff is true in Python's sense: when the
  diff is \<^verbatim>\<open>None\<close> or empty (an empty string, list or dict) the consumer is returned
  unchanged, so no wire event at all is emitted; when it is not empty, exactly one message
  is appended to what was sent, and it is the event with its type set to \<^verbatim>\<open>render\<close>,
  carrying the same id and the same diff.
\<close>

theorem render_sends_iff_diff_nonempty:
  assumes "map_of event ''html_diff'' = Some html_diff" and "map_of event ''id'' = Some ident"
  shows "render event s =
           (Returned, if truthy html_diff then s\<lparr>sent := sent s @ [with_type ''render'' event]\<rparr> else s)
       \<and> map_of (with_type ''render'' event) ''type'' = Some (JStr ''render'')
       \<and> map_of (with_type ''render'' event) ''id'' = Some ident
       \<and> map_of (with_type ''render'' event) ''html_diff'' = Some html_diff
       \<and> (html_diff \<in> {JNull, JStr [], JArr [], JObj []} \<longrightarrow> \<not> truthy html_diff)
       \<and> (html_diff \<in> {JStr (c # cs), JArr (x # xs), JObj (kv # kvs)} \<longrightarrow> truthy html_diff)"
  using assms by (auto simp: render_def send_json_def with_type_def update_conv')

theorem render_sends_iff_diff_nonempty_witness:
  "render [(''id'', JNum 1), (''html_diff'', JStr ''<p>1</p>'')] example_consumer =
     (Returned, example_consumer\<lparr>sent :=
        [[(''id'', JNum 1), (''html_diff'', JStr ''<p>1</p>''), (''type'', JStr ''render'')]]\<rparr>)
   \<and> render [(''id'', JNum 1), (''html_diff'', JNull)] example_consumer = (Returned, example_consumer)"
  using render_sends_iff_diff_nonempty
          [of "[(''id'', JNum 1), (''html_diff'', JStr ''<p>1</p>'')]" "JStr ''<p>1</p>''" "JNum 1"
              example_consumer]
        render_sends_iff_diff_nonempty
          [of "[(''id'', JNum 1), (''html_diff'', JNull)]" JNull "JNum 1" example_consumer]
  by (simp add: with_type_def example_consumer_def)

section \<open>Joining with a state envelope that does not validate\<close>

text \<open>
  The claim C1 as stated, with "the connection is not terminated", does not hold: the
  consumer catches nothing, so the \<open>IntegrityError\<close> of a forged envelope leaves
  \<^verbatim>\<open>receive_json\<close> and ends the connection.
\<close>

definition forged_join_request :: json where
  "forged_join_request =
     JObj [(''command'', JStr ''join''),
           (''payload'', JObj [(''tag_name'', JStr ''XTodoItem''), (''id'', JNum 7),
                               (''state'', JStr ''{}:forged'')])]"

theorem join_bad_signature_terminates_counterexample:
  "unsign example_collaborators (JStr ''{}:forged'') = Inl IntegrityError
   \<and> receive_json example_collaborators forged_join_request example_consumer
       = (Raised IntegrityError, example_consumer)
   \<and> websocket_receive example_collaborators forged_join_request (Connected example_consumer)
       = Terminated IntegrityError"
  by (simp add: websocket_receive_def forged_join_request_def receive_join_def
      example_collaborators_def tree_collaborators_def example_unsign_def)

text \<open>
  C1, amended. For every join command whose state envelope does not validate under the
  signer (\<open>unsign\<close> raises \<open>IntegrityError\<close>), \<^verbatim>\<open>receive_join\<close> raises \<open>IntegrityError\<close> and
  returns the consumer exactly as it was: the tree has no new component and nothing was
  sent. The payload is not deserialized: the result is the same whatever \<^verbatim>\<open>json.loads\<close>,
  \<^verbatim>\<open>get_or_create\<close> and \<^verbatim>\<open>_render_diff\<close> would do. When the command arrives through
  \<^verbatim>\<open>receive_json\<close> the exception is not caught there, and the connection is terminated by
  it.
\<close>

theorem join_bad_signature_rejected:
  assumes "unsign E state = Inl IntegrityError"
  shows "receive_join E tag_name ident state s = (Raised IntegrityError, s)
       \<and> receive_join (E\<lparr>loads := any_loads, get_or_create := any_get_or_create,
                        render_diff := any_render_diff\<rparr>) tag_name ident state s
           = (Raised IntegrityError, s)
       \<and> (subscript request ''command'' = Inr (JStr ''join'')
            \<and> subscript request ''payload'' = Inr payload
            \<and> bind_kwargs [''tag_name'', ''id'', ''state''] payload = Inr [tag_name, ident, state]
          \<longrightarrow> receive_json E request s = (Raised IntegrityError, s)
              \<and> websocket_receive E request (Connected s) = Terminated IntegrityError)"
  using assms by (simp add: receive_join_def websocket_receive_def)

theorem join_bad_signature_rejected_witness:
  "unsign example_collaborators (JStr ''{}:forged'') = Inl IntegrityError
   \<and> receive_join example_collaborators (JStr ''XTodoItem'') (JNum 7) (JStr ''{}:forged'')
        example_consumer = (Raised IntegrityError, example_consumer)
   \<and> receive_json example_collaborators forged_join_request example_consumer
       = (Raised IntegrityError, example_consumer)
   \<and> websocket_receive example_collaborators forged_join_request (Connected example_consumer)
       = Terminated IntegrityError"
proof -
  have u: "unsign example_collaborators (JStr ''{}:forged'') = Inl IntegrityError"
    by (simp add: example_collaborators_def tree_collaborators_def example_unsign_def)
  show ?thesis
    using u join_bad_signature_rejected [OF u, where tag_name = "JStr ''XTodoItem''"
        and ident = "JNum 7" and s = example_consumer and request = forged_join_request
        and payload = "JObj [(''tag_name'', JStr ''XTodoItem''), (''id'', JNum 7),
                              (''state'', JStr ''{}:forged'')]"]
    by (simp add: forged_join_request_def)
qed

section \<open>Merging the arguments of a user event\<close>

lemma dict_merge_conv:
  "distinct (map fst b) \<Longrightarrow> map_of (dict_merge a b) = map_of a ++ map_of b"
proof (induction b arbitrary: a)
  case Nil
  then show ?case by (simp add: dict_merge_def)
next
  case (Cons kv b)
  obtain k v where kv: "kv = (k, v)" by (cases kv)
  from Cons.prems kv have k: "map_of b k = None" and d: "distinct (map fst b)"
    by (auto simp: map_of_eq_None_iff)
  have "dict_merge a (kv # b) = dict_merge (AList.update k v a) b"
    by (simp add: dict_merge_def kv)
  then have "map_of (dict_merge a (kv # b)) = map_of (AList.update k v a) ++ map_of b"
    using Cons.IH [OF d] by simp
  also have "\<dots> = (map_of a)(k \<mapsto> v) ++ map_of b"
    by (simp only: update_conv')
  also have "\<dots> = map_of a ++ map_of (kv # b)"
  proof (rule ext)
    fix x
    show "((map_of a)(k \<mapsto> v) ++ map_of b) x = (map_of a ++ map_of (kv # b)) x"
      using k by (cases "map_of b x") (auto simp: kv map_add_def)
  qed
  finally show ?case .
qed

lemma dict_merge_explicit_wins:
  assumes "distinct (map fst b)" and "map_of b k = Some v"
  shows "map_of (dict_merge a b) k = Some v"
  using assms by (simp add: dict_merge_conv map_add_def)

lemma user_event_kwargs_null:
  "extract_data E implicit_args = Inr data \<Longrightarrow> user_event_kwargs E implicit_args JNull = Inr data"
  by (simp add: user_event_kwargs_def dict_merge_def)

lemma user_event_kwargs_dict:
  "extract_data E implicit_args = Inr data
   \<Longrightarrow> user_event_kwargs E implicit_args (JObj kw) = Inr (dict_merge data kw)"
  by (cases kw) (simp_all add: user_event_kwargs_def dict_merge_def)

text \<open>
  C9. In the argument merging of \<^verbatim>\<open>receive_user_event\<close>, whenever \<^verbatim>\<open>extract_data\<close> returns
  the implicit arguments: a null \<^verbatim>\<open>explicit_args\<close> is treated as an empty mapping, so the
  keyword arguments are the implicit ones; and for explicit arguments that are a dict,
  the keyword arguments are the implicit ones overridden by the explicit ones (a key of
  both has the explicit value), and these are the keyword arguments that
  \<^verbatim>\<open>dispatch_user_event\<close> is called with.
\<close>

theorem user_event_kwargs_merge:
  assumes "extract_data E implicit_args = Inr data"
  shows "user_event_kwargs E implicit_args JNull = Inr data
       \<and> (distinct (map fst kw) \<longrightarrow>
            (\<exists>kwargs. user_event_kwargs E implicit_args (JObj kw) = Inr kwargs
               \<and> map_of kwargs = map_of data ++ map_of kw
               \<and> (\<forall>k v. map_of kw k = Some v \<longrightarrow> map_of kwargs k = Some v)
               \<and> receive_user_event E ident name implicit_args (JObj kw) s =
                   (case dispatch_user_event E ident name kwargs (root_component s) of
                      (Inl e, t) \<Rightarrow> (Raised e, s\<lparr>root_component := t\<rparr>)
                    | (Inr html_diff, t) \<Rightarrow>
                        render [(''id'', ident), (''html_diff'', html_diff)]
                          (s\<lparr>root_component := t\<rparr>))))"
proof (intro conjI impI)
  show "user_event_kwargs E implicit_args JNull = Inr data"
    using assms by (rule user_event_kwargs_null)
next
  assume d: "distinct (map fst kw)"
  have 1: "user_event_kwargs E implicit_args (JObj kw) = Inr (dict_merge data kw)"
    using assms by (rule user_event_kwargs_dict)
  have 2: "map_of (dict_merge data kw) = map_of data ++ map_of kw"
    using d by (rule dict_merge_conv)
  have 3: "\<forall>k v. map_of kw k = Some v \<longrightarrow> map_of (dict_merge data kw) k = Some v"
    using d by (simp add: dict_merge_explicit_wins)
  have 4: "receive_user_event E ident name implicit_args (JObj kw) s =
             (case dispatch_user_event E ident name (dict_merge data kw) (root_component s) of
                (Inl e, t) \<Rightarrow> (Raised e, s\<lparr>root_component := t\<rparr>)
              | (Inr html_diff, t) \<Rightarrow>
                  render [(''id'', ident), (''html_diff'', html_diff)]
                    (s\<lparr>root_component := t\<rparr>))"
    by (simp add: receive_user_event_def 1)
  from 1 2 3 4
  show "\<exists>kwargs. user_event_kwargs E implicit_args (JObj kw) = Inr kwargs
               \<and> map_of kwargs = map_of data ++ map_of kw
               \<and> (\<forall>k v. map_of kw k = Some v \<longrightarrow> map_of kwargs k = Some v)
               \<and> receive_user_event E ident name implicit_args (JObj kw) s =
                   (case dispatch_user_event E ident name kwargs (root_component s) of
                      (Inl e, t) \<Rightarrow> (Raised e, s\<lparr>root_component := t\<rparr>)
                    | (Inr html_diff, t) \<Rightarrow>
                        render [(''id'', ident), (''html_diff'', html_diff)]
                          (s\<lparr>root_component := t\<rparr>))"
    by blast
qed

theorem user_event_kwargs_merge_witness:
  "extract_data example_collaborators
       (JObj [(''text'', JStr ''milk''), (''completed'', JBool False)])
     = Inr [(''text'', JStr ''milk''), (''completed'', JBool False)]
   \<and> distinct (map fst [(''completed'', JBool True)])
   \<and> user_event_kwargs example_collaborators
        (JObj [(''text'', JStr ''milk''), (''completed'', JBool False)]) JNull
       = Inr [(''text'', JStr ''milk''), (''completed'', JBool False)]
   \<and> (\<exists>kwargs. user_event_kwargs example_collaborators
                   (JObj [(''text'', JStr ''milk''), (''completed'', JBool False)])
                   (JObj [(''completed'', JBool True)]) = Inr kwargs
         \<and> map_of kwargs ''completed'' = Some (JBool True)
         \<and> map_of kwargs ''text'' = Some (JStr ''milk''))"
proof -
  have x: "extract_data example_collaborators
             (JObj [(''text'', JStr ''milk''), (''completed'', JBool False)])
           = Inr [(''text'', JStr ''milk''), (''completed'', JBool False)]"
    by (simp add: example_collaborators_def tree_collaborators_def example_extract_data_def)
  show ?thesis
    using x user_event_kwargs_merge [OF x, of "[(''completed'', JBool True)]" "JNum 1" "JStr ''save''"
        example_consumer]
    by (auto simp: map_add_def)
qed

section \<open>The internal channel for component events\<close>

text \<open>
  C10. For every event delivered to \<^verbatim>\<open>send_component\<close>, the call raises and returns the
  consumer unchanged: no handler is dispatched (the tree is the same, whatever the
  collaborators are) and nothing is rendered. For every event that carries \<^verbatim>\<open>name\<close> and a
  \<^verbatim>\<open>state\<close> with an \<^verbatim>\<open>id\<close>, the exception is the \<^verbatim>\<open>TypeError\<close> of calling
  \<^verbatim>\<open>receive_user_event\<close> with three arguments where it requires four; an event that lacks
  one of them fails earlier, at the subscript.
\<close>

theorem send_component_raises_type_error:
  "snd (send_component E event s) = s
   \<and> fst (send_component E event s) \<in> {Raised TypeError, Raised KeyError}
   \<and> (map_of event ''state'' = Some state \<and> subscript state ''id'' = Inr ident
        \<and> map_of event ''name'' = Some name
      \<longrightarrow> send_component E event s = (Raised TypeError, s))"
  by (cases "map_of event ''state''"; cases "map_of event ''name''")
     (auto simp: send_component_def call_receive_user_event_def split: sum.splits json.splits option.splits
           elim: subscript.elims)

theorem send_component_raises_type_error_witness:
  "send_component example_collaborators
     [(''type'', JStr ''send_component''), (''name'', JStr ''toggle_editing''),
      (''state'', JObj [(''id'', JNum 1)])] example_consumer
   = (Raised TypeError, example_consumer)"
  using send_component_raises_type_error
          [of example_collaborators
              "[(''type'', JStr ''send_component''), (''name'', JStr ''toggle_editing''),
                (''state'', JObj [(''id'', JNum 1)])]"
              example_consumer "JObj [(''id'', JNum 1)]" "JNum 1" "JStr ''toggle_editing''"]
  by simp

section \<open>Removing a component\<close>






section \<open>User events for a component that is not in the tree\<close>

text \<open>
  The claim C6 as stated, with "the connection remains open", does not hold: the
  \<open>UnknownComponent\<close> of a user event for an id that was never joined is caught nowhere,
  leaves \<^verbatim>\<open>receive_json\<close> and ends the connection.
\<close>

definition unknown_user_event_request :: json where
  "unknown_user_event_request =
     JObj [(''command'', JStr ''user_event''),
           (''payload'', JObj [(''id'', JNum 99), (''name'', JStr ''toggle_all''),
                               (''implicit_args'', JObj []),
                               (''explicit_args'', JObj [(''toggle_all'', JBool True)])])]"

theorem user_event_unknown_component_terminates_counterexample:
  "lookup (\<lambda>c. cid c = JNum 99) (root_component example_consumer) = None
   \<and> receive_json example_collaborators unknown_user_event_request example_consumer
       = (Raised UnknownComponent, example_consumer)
   \<and> websocket_receive example_collaborators unknown_user_event_request
        (Connected example_consumer) = Terminated UnknownComponent"
  by (simp add: websocket_receive_def unknown_user_event_request_def call_receive_user_event_def
      receive_user_event_def user_event_kwargs_def dict_merge_def example_collaborators_def
      tree_collaborators_def example_extract_data_def tree_dispatch_user_event_def
      example_consumer_def)

text \<open>
  C6, amended. For every user event command whose id has no live component in the
  session's tree (and whose arguments merge: \<^verbatim>\<open>extract_data\<close> returns, the explicit
  arguments are null or a dict), the command fails with \<open>UnknownComponent\<close> and the
  consumer is returned exactly as it was, so no wire event is sent. When the command
  arrives through \<^verbatim>\<open>receive_json\<close> the exception is not caught there, and the connection
  is terminated by it. The lookup is that of the tree as the specification describes it.
\<close>

theorem user_event_unknown_component:
  assumes "lookup (\<lambda>c. cid c = ident) (root_component s) = None"
    and "extract implicit_args = Inr data"
    and "explicit_args = JNull \<or> explicit_args = JObj kw"
  shows "receive_user_event (tree_collaborators signer_unsign json_loads extract R)
           ident name implicit_args explicit_args s = (Raised UnknownComponent, s)
       \<and> (subscript request ''command'' = Inr (JStr ''user_event'')
            \<and> subscript request ''payload'' = Inr payload
            \<and> bind_kwargs [''id'', ''name'', ''implicit_args'', ''explicit_args''] payload
                = Inr [ident, name, implicit_args, explicit_args]
          \<longrightarrow> receive_json (tree_collaborators signer_unsign json_loads extract R) request s
                = (Raised UnknownComponent, s)
              \<and> websocket_receive (tree_collaborators signer_unsign json_loads extract R)
                   request (Connected s) = Terminated UnknownComponent)"
proof -
  let ?E = "tree_collaborators signer_unsign json_loads extract R"
  have x: "extract_data ?E implicit_args = Inr data"
    using assms(2) by (simp add: tree_collaborators_def)
  obtain kwargs where k: "user_event_kwargs ?E implicit_args explicit_args = Inr kwargs"
    using assms(3) user_event_kwargs_null [OF x] user_event_kwargs_dict [OF x] by auto
  have d: "dispatch_user_event ?E ident name kwargs (root_component s)
             = (Inl UnknownComponent, root_component s)"
    using assms(1) by (simp add: tree_collaborators_def tree_dispatch_user_event_def)
  have r: "receive_user_event ?E ident name implicit_args explicit_args s
             = (Raised UnknownComponent, s)"
    by (simp add: receive_user_event_def k d)
  then show ?thesis
    by (simp add: call_receive_user_event_def websocket_receive_def)
qed

theorem user_event_unknown_component_witness:
  "lookup (\<lambda>c. cid c = JNum 99) (root_component example_consumer) = None
   \<and> receive_user_event example_collaborators (JNum 99) (JStr ''toggle_all'') (JObj [])
        (JObj [(''toggle_all'', JBool True)]) example_consumer
       = (Raised UnknownComponent, example_consumer)
   \<and> receive_json example_collaborators unknown_user_event_request example_consumer
       = (Raised UnknownComponent, example_consumer)
   \<and> websocket_receive example_collaborators unknown_user_event_request
        (Connected example_consumer) = Terminated UnknownComponent"
proof -
  have a: "lookup (\<lambda>c. cid c = JNum 99) (root_component example_consumer) = None"
    by (simp add: example_consumer_def)
  have b: "example_extract_data (JObj []) = Inr []"
    by (simp add: example_extract_data_def)
  have c: "JObj [(''toggle_all'', JBool True)] = JNull
           \<or> JObj [(''toggle_all'', JBool True)] = JObj [(''toggle_all'', JBool True)]"
    by simp
  note t = user_event_unknown_component
      [of "JNum 99" example_consumer example_extract_data "JObj []" "[]"
          "JObj [(''toggle_all'', JBool True)]" "[(''toggle_all'', JBool True)]"
          example_unsign example_loads example_registry "JStr ''toggle_all''"
          unknown_user_event_request
          "JObj [(''id'', JNum 99), (''name'', JStr ''toggle_all''),
                 (''implicit_args'', JObj []),
                 (''explicit_args'', JObj [(''toggle_all'', JBool True)])]",
       OF a b c]
  show ?thesis
    using a t by (simp add: example_collaborators_def unknown_user_event_request_def)
qed

section \<open>A todo item whose record is missing\<close>

lemma todo_item_with_record:
  assumes "find_item ident = Some found" and "\<not> truthy (kwarg kw ''item'' JNull)"
  shows "\<exists>mounted. XTodoItem_mount find_item ident kw
           = Inr (mounted, [Subscribe (''item.'' @ str_nat (item_id found))])"
  using assms by (simp add: XTodoItem_mount_def Let_def)

text \<open>
  C8. When \<^verbatim>\<open>XTodoItem\<close> is mounted by a join with an id that matches no \<^verbatim>\<open>Item\<close> (and
  no \<^verbatim>\<open>item\<close> argument), its \<^verbatim>\<open>mount\<close> requests its own destruction and makes no call to
  \<^verbatim>\<open>subscribe\<close>, so it registers no topic subscription; the join returns with the consumer
  exactly as it was, so no render event is emitted for it; and a lookup of its address
  in the tree afterwards finds nothing, as before the join. What the tree does with a
  component that requested its destruction is that of the specification.
\<close>

theorem todo_item_without_record:
  assumes "find_item ident = None"
    and "signer_unsign state = Inr text"
    and "json_loads text = Some (JObj kw)"
    and "''id'' \<notin> fst ` set kw"
    and "\<not> truthy (kwarg kw ''item'' JNull)"
    and "constructor R ''XTodoItem'' = Some (XTodoItem_mount find_item)"
    and "lookup (\<lambda>c. tag c = ''XTodoItem'' \<and> cid c = ident) (root_component s) = None"
  shows "(\<exists>mounted. XTodoItem_mount find_item ident kw = Inr (mounted, [SendDestroy]))
       \<and> receive_join (tree_collaborators signer_unsign json_loads extract R)
            (JStr ''XTodoItem'') ident state s = (Returned, s)
       \<and> lookup (\<lambda>c. tag c = ''XTodoItem'' \<and> cid c = ident)
            (root_component (snd (receive_join (tree_collaborators signer_unsign json_loads extract R)
               (JStr ''XTodoItem'') ident state s))) = None"
proof -
  let ?E = "tree_collaborators signer_unsign json_loads extract R"
  let ?attrs = "[(''editing'', kwarg kw ''editing'' (JBool False)),
                 (''showing'', kwarg kw ''showing'' (JStr ''all''))]"
  let ?c = "Component ''XTodoItem'' ident [] ?attrs JNull True []"
  have m: "XTodoItem_mount find_item ident kw = Inr (?attrs, [SendDestroy])"
    using assms(1,5) by (simp add: XTodoItem_mount_def Let_def)
  have g: "get_or_create ?E (JStr ''XTodoItem'') ident kw s = (Inr ?c, s)"
    using assms(6,7) m by (simp add: tree_collaborators_def tree_get_or_create_def)
  have d: "render_diff ?E ?c (root_component s) = (Inr JNull, root_component s)"
    by (simp add: tree_collaborators_def tree_render_diff_def)
  have u: "unsign ?E state = Inr text" and l: "loads ?E text = Some (JObj kw)"
    using assms(2,3) by (simp_all add: tree_collaborators_def)
  have r: "render [(''id'', component_id ?E ?c), (''html_diff'', JNull)] s = (Returned, s)"
    by (simp add: render_def)
  have j: "receive_join ?E (JStr ''XTodoItem'') ident state s = (Returned, s)"
    using assms(4) by (simp add: receive_join_def u l g d r)
  from m j assms(7) show ?thesis by simp
qed

theorem todo_item_without_record_witness:
  "receive_join example_collaborators (JStr ''XTodoItem'') (JNum 7) (JStr ''{}:good'')
     example_consumer = (Returned, example_consumer)
   \<and> lookup (\<lambda>c. tag c = ''XTodoItem'' \<and> cid c = JNum 7)
        (root_component (snd (receive_join example_collaborators (JStr ''XTodoItem'') (JNum 7)
           (JStr ''{}:good'') example_consumer))) = None
   \<and> (\<exists>mounted. XTodoItem_mount (\<lambda>_. None) (JNum 7) [] = Inr (mounted, [SendDestroy]))"
proof -
  have 1: "(\<lambda>_. None :: item option) (JNum 7) = None" by simp
  have 2: "example_unsign (JStr ''{}:good'') = Inr ''{}''" by (simp add: example_unsign_def)
  have 3: "example_loads ''{}'' = Some (JObj [])" by (simp add: example_loads_def)
  have 4: "''id'' \<notin> fst ` set ([] :: pdict)" by simp
  have 5: "\<not> truthy (kwarg [] ''item'' JNull)" by (simp add: kwarg_def)
  have 6: "constructor example_registry ''XTodoItem'' = Some (XTodoItem_mount (\<lambda>_. None))"
    by (simp add: example_registry_def)
  have 7: "lookup (\<lambda>c. tag c = ''XTodoItem'' \<and> cid c = JNum 7) (root_component example_consumer)
             = None"
    by (simp add: example_consumer_def)
  note t = todo_item_without_record
      [of "\<lambda>_. None" "JNum 7" example_unsign "JStr ''{}:good''" "''{}''" example_loads "[]"
          example_registry example_consumer example_extract_data,
       OF 1 2 3 4 5 6 7]
  show ?thesis
    unfolding example_collaborators_def using t by blast
qed

section \<open>Command names that are not a command\<close>

text \<open>
  The claim C2 as stated does not hold, in two ways. Not every command name other than
  the three command kinds fails: the name \<^verbatim>\<open>json\<close> resolves to \<^verbatim>\<open>receive_json\<close> itself,
  which dispatches the request found in the payload, so a leave wrapped in a \<^verbatim>\<open>json\<close>
  command returns without an error and removes component 1 from the tree. And a name
  that does fail terminates the connection: the \<^verbatim>\<open>AttributeError\<close> of the name
  \<^verbatim>\<open>destroy\<close> is caught nowhere and leaves \<^verbatim>\<open>receive_json\<close>.
\<close>

definition nested_leave_request :: json where
  "nested_leave_request =
     JObj [(''command'', JStr ''json''),
           (''payload'',
            JObj [(''request'',
                   JObj [(''command'', JStr ''leave''),
                         (''payload'', JObj [(''id'', JNum 1)])])])]"

definition unknown_command_request :: json where
  "unknown_command_request =
     JObj [(''command'', JStr ''destroy''), (''payload'', JObj [(''id'', JNum 1)])]"

theorem unrecognized_command_counterexample:
  "subscript nested_leave_request ''command'' = Inr (JStr ''json'')
   \<and> JStr ''json'' \<notin> {JStr ''join'', JStr ''user_event'', JStr ''leave''}
   \<and> fst (receive_json example_collaborators nested_leave_request example_consumer) = Returned
   \<and> root_component (snd (receive_json example_collaborators nested_leave_request
        example_consumer)) = []
   \<and> root_component example_consumer \<noteq> []
   \<and> subscript unknown_command_request ''command'' = Inr (JStr ''destroy'')
   \<and> JStr ''destroy'' \<notin> {JStr ''join'', JStr ''user_event'', JStr ''leave''}
   \<and> websocket_receive example_collaborators unknown_command_request (Connected example_consumer)
       = Terminated AttributeError"
  by (simp add: nested_leave_request_def unknown_command_request_def websocket_receive_def
      receive_leave_def example_collaborators_def tree_collaborators_def tree_pop_def
      unsubscribe_def example_consumer_def)

lemma getattr_receive_unknown:
  "name \<notin> {JStr ''join'', JStr ''user_event'', JStr ''leave'', JStr ''json''}
   \<Longrightarrow> getattr_receive name = None"
  by (cases name) auto

text \<open>
  C2, amended. For every inbound message with a command and a payload whose command
  name is none of \<^verbatim>\<open>join\<close>, \<^verbatim>\<open>user_event\<close>, \<^verbatim>\<open>leave\<close> and \<^verbatim>\<open>json\<close>, only this request fails:
  \<^verbatim>\<open>receive_json\<close> raises \<^verbatim>\<open>AttributeError\<close>, before the payload is unpacked, and returns
  the consumer exactly as it was, so the component tree is unaffected. The exception is
  not caught there, and the connection is terminated by it.
\<close>

theorem unknown_command_fails:
  assumes "subscript request ''command'' = Inr name"
    and "subscript request ''payload'' = Inr payload"
    and "name \<notin> {JStr ''join'', JStr ''user_event'', JStr ''leave'', JStr ''json''}"
  shows "receive_json E request s = (Raised AttributeError, s)
       \<and> websocket_receive E request (Connected s) = Terminated AttributeError"
  using assms(1,2) getattr_receive_unknown [OF assms(3)] by (simp add: websocket_receive_def)

theorem unknown_command_fails_witness:
  "receive_json example_collaborators unknown_command_request example_consumer
     = (Raised AttributeError, example_consumer)
   \<and> websocket_receive example_collaborators unknown_command_request (Connected example_consumer)
     = Terminated AttributeError"
proof -
  have 1: "subscript unknown_command_request ''command'' = Inr (JStr ''destroy'')"
    and 2: "subscript unknown_command_request ''payload'' = Inr (JObj [(''id'', JNum 1)])"
    by (simp_all add: unknown_command_request_def)
  have 3: "JStr ''destroy'' \<notin> {JStr ''join'', JStr ''user_event'', JStr ''leave'', JStr ''json''}"
    by simp
  show ?thesis
    by (rule unknown_command_fails [OF 1 2 3])
qed

end
